theory Spec2Isabelle
  imports Main
begin

section \<open>Repository change events\<close>

text \<open>
  The kinds of change a repository watcher reports, and the comparison mode a
  subscriber passes to \<open>RepositoryChangeEvent.changed\<close>.
\<close>

datatype RepositoryChange =
  Config | Heads | Index | Remotes | Status | Tags | Stashes | Unknown

datatype RepositoryChangeComparisonMode = AnyMode | AllMode

record RepositoryChangeEvent =
  changedKinds :: "RepositoryChange set"

text \<open>
  Modelled from the spec: \<open>RepositoryChangeEvent.changed\<close> (git/models/repository.ts
  is not among the sources; only its callers are). The spec's data model reads
  "ANY returns true iff intersection non-empty; ALL returns true iff
  kinds \<subseteq> changedKinds". The callers pass the watched kinds first and the mode last.
  Every caller in the sources lists \<open>Unknown\<close> among the watched kinds, which is how
  an unclassified change reaches them: the function itself treats \<open>Unknown\<close> as any
  other kind.
\<close>

definition changed ::
  "RepositoryChangeEvent \<Rightarrow> RepositoryChange list \<Rightarrow> RepositoryChangeComparisonMode \<Rightarrow> bool"
where
  "changed e kinds mode =
     (case mode of
        AnyMode \<Rightarrow> set kinds \<inter> changedKinds e \<noteq> {}
      | AllMode \<Rightarrow> set kinds \<subseteq> changedKinds e)"






section \<open>Objects, collaborators and the runtime\<close>

text \<open>
  Objects are told apart by reference: every \<open>new\<close> and every array literal of the
  sources takes the next free address of the runtime. The runtime also keeps the
  calls made to the collaborators whose repetition some properties are about, and
  the objects that have been disposed.
\<close>

type_synonym ref = nat

datatype error = Rejected

datatype more_limit = Limit nat | Until string

datatype call =
  GitGetLog string nat
| LogMore ref more_limit
| TriggerChange bool
| RepoGetBranches

record runtime =
  next_ref :: ref
  calls :: "call list"
  disposed :: "ref set"

definition new_ref :: "runtime \<Rightarrow> ref \<times> runtime" where
  "new_ref rt = (next_ref rt, rt\<lparr>next_ref := Suc (next_ref rt)\<rparr>)"

definition note_call :: "call \<Rightarrow> runtime \<Rightarrow> runtime" where
  "note_call c rt = rt\<lparr>calls := calls rt @ [c]\<rparr>"

text \<open>
  The classes of the nodes the sources create, with the fields later code looks at.
  \<open>LoadMoreNode\<close> holds the child it was appended after, when there is one.
\<close>

datatype node_kind =
  CompareBranchNode
| PullRequestNode string
| MergeStatusNode
| RebaseStatusNode
| BranchTrackingStatusNode string
| MessageNode string
| CommitNode string "bool option"
| LoadMoreNode "ref option"
| BranchNodeFor string
| FolderNode string

type_synonym ViewNode = "ref \<times> node_kind"

record children_array =
  arr_ref :: ref
  arr_items :: "ViewNode list"

definition new_nodes :: "node_kind list \<Rightarrow> runtime \<Rightarrow> ViewNode list \<times> runtime" where
  "new_nodes ks rt =
     (zip [next_ref rt ..< next_ref rt + length ks] ks,
      rt\<lparr>next_ref := next_ref rt + length ks\<rparr>)"

definition new_array :: "ViewNode list \<Rightarrow> runtime \<Rightarrow> children_array \<times> runtime" where
  "new_array items rt =
     (\<lparr>arr_ref = next_ref rt, arr_items = items\<rparr>, rt\<lparr>next_ref := Suc (next_ref rt)\<rparr>)"

record GitLog =
  log_ref :: ref
  log_commits :: "string list"
  log_count :: nat
  log_hasMore :: bool

record GitBranch =
  b_name :: string
  b_ref :: string
  b_repoPath :: string
  b_current :: bool
  b_remote :: bool
  b_tracking :: "string option"
  b_ahead :: nat
  b_behind :: nat

record GitRebaseStatus =
  incoming_name :: string

text \<open>
  The data-access collaborator (\<open>Container.git\<close>, and \<open>log.more\<close> of a log it
  returned). A rejected promise is \<open>Inl Rejected\<close>, an \<open>undefined\<close> result is
  \<open>Inr None\<close>. \<open>git_more\<close> also stands for a log that has no \<open>more\<close> function:
  \<open>log.more?.(...)\<close> is then \<open>undefined\<close>.
\<close>

record GitService =
  git_getBranchAheadRange :: "GitBranch \<Rightarrow> error + string option"
  git_getLog :: "string \<Rightarrow> nat \<Rightarrow> string \<Rightarrow> string list option \<Rightarrow> error + GitLog option"
  git_getBranchesAndTagsTipsFn :: "string \<Rightarrow> string \<Rightarrow> error + unit"
  git_getStatusForRepo :: "string \<Rightarrow> error + string option"
  git_getMergeStatus :: "string \<Rightarrow> error + string option"
  git_getRebaseStatus :: "string \<Rightarrow> error + GitRebaseStatus option"
  git_getAssociatedPullRequest :: "GitBranch \<Rightarrow> bool \<Rightarrow> error + string option"
  git_getLogRefsOnly :: "string \<Rightarrow> string \<Rightarrow> error + string list option"
  git_more :: "GitLog \<Rightarrow> more_limit \<Rightarrow> error + GitLog option"

text \<open>
  What a node reads of its view: the configuration, whether the view is the remotes
  view, and \<open>insertDateMarkers\<close> of views/nodes/helpers.ts, which is not among the
  sources and is taken as it comes.
\<close>

record View =
  pageItemLimit :: nat
  defaultItemLimit :: nat
  pullRequests_enabled :: bool
  pullRequests_showForBranches :: bool
  isRemotesView :: bool
  layoutIsList :: bool
  insertDateMarkers :: "node_kind list \<Rightarrow> node_kind list"

section \<open>BranchNode\<close>

record BranchNode_options =
  showComparison :: "string option"
  showStatus :: bool
  showTracking :: bool
  authors :: "string list option"

text \<open>
  The fields \<open>_children\<close>, \<open>_log\<close> and \<open>limit\<close> of the class are \<open>bn_children\<close>,
  \<open>bn_log\<close> and \<open>bn_limit\<close>; \<open>None\<close> is \<open>undefined\<close>.
\<close>

record BranchNode =
  bn_repoPath :: string
  bn_branch :: GitBranch
  bn_root :: bool
  bn_options :: BranchNode_options
  bn_children :: "children_array option"
  bn_log :: "GitLog option"
  bn_limit :: "nat option"

text \<open>A string is truthy in the source's conditions when it is defined and not empty.\<close>

definition truthy :: "string option \<Rightarrow> bool" where
  "truthy s = (s \<noteq> None \<and> s \<noteq> Some [])"

text \<open>
  The limit \<open>getLog\<close> asks for: the node's last known limit, else the view's, and
  more when the branch has unpublished commits beyond it.
\<close>

definition logLimit :: "View \<Rightarrow> BranchNode \<Rightarrow> nat" where
  "logLimit view this =
     (let limit = (case bn_limit this of
                     Some n \<Rightarrow> n
                   | None \<Rightarrow> if bn_root this then pageItemLimit view else defaultItemLimit view);
          ahead = b_ahead (bn_branch this)
      in if limit \<noteq> 0 \<and> ahead > limit then min (ahead + 1) (limit * 2) else limit)"

definition BranchNode_getLog ::
  "GitService \<Rightarrow> View \<Rightarrow> BranchNode \<Rightarrow> runtime \<Rightarrow> (error + GitLog option) \<times> BranchNode \<times> runtime"
where
  "BranchNode_getLog git view this rt =
     (case bn_log this of
        Some l \<Rightarrow> (Inr (Some l), this, rt)
      | None \<Rightarrow>
          let limit = logLimit view this;
              rt1 = note_call (GitGetLog (b_ref (bn_branch this)) limit) rt
          in (case git_getLog git (bn_repoPath this) limit (b_ref (bn_branch this))
                     (authors (bn_options this)) of
                Inl e \<Rightarrow> (Inl e, this, rt1)
              | Inr l \<Rightarrow> (Inr l, this\<lparr>bn_log := l\<rparr>, rt1)))"


text \<open>\<open>refresh(reset?)\<close>: an omitted \<open>reset\<close> is falsy, that is \<open>False\<close> here.\<close>

definition BranchNode_refresh :: "bool \<Rightarrow> BranchNode \<Rightarrow> runtime \<Rightarrow> BranchNode \<times> runtime" where
  "BranchNode_refresh reset this rt =
     (let this1 = this\<lparr>bn_children := None\<rparr>
      in (if reset then this1\<lparr>bn_log := None\<rparr> else this1, rt))"



text \<open>
  The status children of \<open>getChildren\<close>: the merge status, else the rebase status,
  else the tracking status. The first two read the repository status again when the
  first read gave none, and that read can fail.
\<close>

definition trackingChildren :: "BranchNode \<Rightarrow> node_kind list" where
  "trackingChildren this =
     (let b = bn_branch this in
      if truthy (b_tracking b) then
        (if bn_root this \<and> b_behind b = 0 \<and> b_ahead b = 0
         then [BranchTrackingStatusNode ''same'']
         else (if b_behind b \<noteq> 0 then [BranchTrackingStatusNode ''behind''] else []) @
              (if b_ahead b \<noteq> 0 then [BranchTrackingStatusNode ''ahead''] else []))
      else [BranchTrackingStatusNode ''none''])"

definition statusChildren ::
  "GitService \<Rightarrow> BranchNode \<Rightarrow> string option \<Rightarrow> string option \<Rightarrow> GitRebaseStatus option
     \<Rightarrow> error + node_kind list"
where
  "statusChildren git this status mergeStatus rebaseStatus =
     (let b = bn_branch this; opts = bn_options this in
      if showStatus opts \<and> mergeStatus \<noteq> None then
        (if status \<noteq> None then Inr [MergeStatusNode]
         else case git_getStatusForRepo git (bn_repoPath this) of
                Inl e \<Rightarrow> Inl e
              | Inr _ \<Rightarrow> Inr [MergeStatusNode])
      else if showStatus opts \<and> rebaseStatus \<noteq> None \<and>
              (b_current b \<or> Some (b_name b) = map_option incoming_name rebaseStatus) then
        (if status \<noteq> None then Inr [RebaseStatusNode]
         else case git_getStatusForRepo git (bn_repoPath this) of
                Inl e \<Rightarrow> Inl e
              | Inr _ \<Rightarrow> Inr [RebaseStatusNode])
      else if showTracking opts then Inr (trackingChildren this)
      else Inr [])"

text \<open>
  The children built from a log: the comparison, the pull request, the status
  children, a separator when any of these is there, the commits with their date
  markers, and the node that loads more.
\<close>

definition headChildren :: "View \<Rightarrow> BranchNode \<Rightarrow> string option \<Rightarrow> node_kind list" where
  "headChildren view this pr =
     (if showComparison (bn_options this) \<noteq> None \<and> \<not> isRemotesView view
      then [CompareBranchNode] else []) @
     (case pr of Some p \<Rightarrow> [PullRequestNode p] | None \<Rightarrow> [])"

definition commitChildren :: "View \<Rightarrow> GitLog \<Rightarrow> string list option \<Rightarrow> node_kind list" where
  "commitChildren view log unpublishedCommits =
     insertDateMarkers view
       (map (\<lambda>c. CommitNode c (map_option (\<lambda>u. c \<in> set u) unpublishedCommits))
            (log_commits log))"

definition buildChildren ::
  "View \<Rightarrow> GitLog \<Rightarrow> node_kind list \<Rightarrow> string list option \<Rightarrow> ref \<Rightarrow> runtime
     \<Rightarrow> children_array \<times> runtime"
where
  "buildChildren view log upper unpublishedCommits arr rt =
     (let sep = (if upper \<noteq> [] then [MessageNode ''--''] else []);
          (nodes, rt1) = new_nodes (upper @ sep @ commitChildren view log unpublishedCommits) rt;
          (more, rt2) =
             (if log_hasMore log
              then new_nodes [LoadMoreNode (if nodes = [] then None else Some (fst (last nodes)))] rt1
              else ([], rt1))
      in (\<lparr>arr_ref = arr, arr_items = nodes @ more\<rparr>, rt2))"

text \<open>
  The reads that \<open>getChildren\<close> starts together with \<open>getLog\<close> in its
  \<open>Promise.all\<close>: the tips function, the status, the merge and rebase status, the
  pull request and the unpublished commits. One rejection rejects them all.
\<close>

record reads =
  r_status :: "string option"
  r_mergeStatus :: "string option"
  r_rebaseStatus :: "GitRebaseStatus option"
  r_pr :: "string option"
  r_unpublishedCommits :: "string list option"

definition otherReads ::
  "GitService \<Rightarrow> View \<Rightarrow> BranchNode \<Rightarrow> string option \<Rightarrow> error + reads"
where
  "otherReads git view this aheadRange =
     (let b = bn_branch this; opts = bn_options this; path = bn_repoPath this;
          tips = git_getBranchesAndTagsTipsFn git path (b_name b);
          status = (if showStatus opts \<and> b_current b
                    then git_getStatusForRepo git path else Inr None);
          mergeStatus = (if showStatus opts \<and> b_current b
                         then git_getMergeStatus git path else Inr None);
          rebaseStatus = (if showStatus opts
                          then git_getRebaseStatus git path else Inr None);
          pr = (if pullRequests_enabled view \<and> pullRequests_showForBranches view \<and>
                   (truthy (b_tracking b) \<or> b_remote b)
                then git_getAssociatedPullRequest git b (bn_root this) else Inr None);
          unpublishedCommits =
               (if truthy aheadRange \<and> \<not> b_remote b
                then git_getLogRefsOnly git path (the aheadRange) else Inr None)
      in if isl tips \<or> isl status \<or> isl mergeStatus \<or> isl rebaseStatus \<or> isl pr \<or>
            isl unpublishedCommits
         then Inl Rejected
         else Inr \<lparr>r_status = projr status, r_mergeStatus = projr mergeStatus,
                   r_rebaseStatus = projr rebaseStatus, r_pr = projr pr,
                   r_unpublishedCommits = projr unpublishedCommits\<rparr>)"

text \<open>
  What \<open>getChildren\<close> does once the reads are in: without a log it returns a new
  array holding one new message node and stores nothing; with a log it builds the
  children into the array \<open>arr\<close>, stores it in \<open>_children\<close> and returns it.
\<close>

definition assemble ::
  "GitService \<Rightarrow> View \<Rightarrow> BranchNode \<Rightarrow> ref \<Rightarrow> GitLog option \<Rightarrow> reads \<Rightarrow> runtime
     \<Rightarrow> (error + children_array) \<times> BranchNode \<times> runtime"
where
  "assemble git view this arr log rd rt =
     (case log of
        None \<Rightarrow>
          let (nodes, rt1) = new_nodes [MessageNode ''No commits could be found.''] rt;
              (msg, rt2) = new_array nodes rt1
          in (Inr msg, this, rt2)
      | Some l \<Rightarrow>
          (case statusChildren git this (r_status rd) (r_mergeStatus rd) (r_rebaseStatus rd) of
             Inl e \<Rightarrow> (Inl e, this, rt)
           | Inr sc \<Rightarrow>
               let (children, rt1) =
                     buildChildren view l (headChildren view this (r_pr rd) @ sc)
                       (r_unpublishedCommits rd) arr rt
               in (Inr children, this\<lparr>bn_children := Some children\<rparr>, rt1)))"

text \<open>
  \<open>getChildren\<close>. The array literal \<open>children = []\<close> comes first; the ahead range
  is awaited alone; then \<open>getLog\<close> and the other reads run together, so the log
  that \<open>getLog\<close> fetched is kept by the node also when another read is rejected.
\<close>

definition BranchNode_getChildren ::
  "GitService \<Rightarrow> View \<Rightarrow> BranchNode \<Rightarrow> runtime
     \<Rightarrow> (error + children_array) \<times> BranchNode \<times> runtime"
where
  "BranchNode_getChildren git view this rt =
     (case bn_children this of
        Some cs \<Rightarrow> (Inr cs, this, rt)
      | None \<Rightarrow>
          let (arr, rt0) = new_ref rt
          in case git_getBranchAheadRange git (bn_branch this) of
               Inl e \<Rightarrow> (Inl e, this, rt0)
             | Inr aheadRange \<Rightarrow>
                 let (log, this1, rt1) = BranchNode_getLog git view this rt0
                 in case (log, otherReads git view this aheadRange) of
                      (Inr lg, Inr rd) \<Rightarrow> assemble git view this1 arr lg rd rt1
                    | _ \<Rightarrow> (Inl Rejected, this1, rt1))"

section \<open>BranchesNode\<close>

text \<open>
  \<open>repo.getBranches\<close> is the collaborator; the filter the source passes to it
  (local branches only) is applied here. \<open>Arrays.makeHierarchical\<close> and
  \<open>BranchOrTagFolderNode.getChildren\<close> are not among the sources: the children
  they make of the branch nodes are the parameter \<open>folderChildren\<close>.
\<close>

record BranchesNode =
  bs_repoPath :: string
  bs_children :: "children_array option"



section \<open>Sample objects\<close>

text \<open>A local branch, a repository without a log, and one with a log of two commits.\<close>

definition sample_branch :: GitBranch where
  "sample_branch =
     \<lparr>b_name = ''main'', b_ref = ''main'', b_repoPath = ''/repo'', b_current = True,
      b_remote = False, b_tracking = None, b_ahead = 0, b_behind = 0\<rparr>"

definition sample_log :: GitLog where
  "sample_log =
     \<lparr>log_ref = 100, log_commits = [''c2'', ''c1''], log_count = 2, log_hasMore = True\<rparr>"

definition sample_git :: "GitLog option \<Rightarrow> GitService" where
  "sample_git lg =
     \<lparr>git_getBranchAheadRange = (\<lambda>_. Inr None),
      git_getLog = (\<lambda>_ _ _ _. Inr lg),
      git_getBranchesAndTagsTipsFn = (\<lambda>_ _. Inr ()),
      git_getStatusForRepo = (\<lambda>_. Inr None),
      git_getMergeStatus = (\<lambda>_. Inr None),
      git_getRebaseStatus = (\<lambda>_. Inr None),
      git_getAssociatedPullRequest = (\<lambda>_ _. Inr None),
      git_getLogRefsOnly = (\<lambda>_ _. Inr None),
      git_more = (\<lambda>_ _. Inr None)\<rparr>"


definition sample_view :: View where
  "sample_view =
     \<lparr>pageItemLimit = 40, defaultItemLimit = 10, pullRequests_enabled = False,
      pullRequests_showForBranches = False, isRemotesView = False, layoutIsList = False,
      insertDateMarkers = (\<lambda>ks. ks)\<rparr>"

definition sample_node :: BranchNode where
  "sample_node =
     \<lparr>bn_repoPath = ''/repo'', bn_branch = sample_branch, bn_root = False,
      bn_options = \<lparr>showComparison = None, showStatus = True, showTracking = True,
                    authors = None\<rparr>,
      bn_children = None, bn_log = None, bn_limit = None\<rparr>"

definition sample_runtime :: runtime where
  "sample_runtime = \<lparr>next_ref = 0, calls = [], disposed = {}\<rparr>"

section \<open>BranchesViewNode\<close>

text \<open>
  The children of the view's root are repository nodes (\<open>BranchesRepositoryNode\<close>,
  a \<open>RepositoryFolderNode\<close>). Of such a node the model keeps its reference and the
  references of the objects materialized below it.
\<close>

record RepositoryFolderNode =
  rf_ref :: ref
  rf_id :: string
  rf_materialized :: "ref list"



text \<open>
  Modelled from the spec: \<open>dispose()\<close> of a subscribeable node
  (\<open>SubscribeableViewNode.dispose\<close> is not among the sources). "Disposing a node
  disposes all currently materialized children first, then releases the
  subscription"; "disposing twice is a no-op".
\<close>

definition SubscribeableViewNode_dispose :: "RepositoryFolderNode \<Rightarrow> runtime \<Rightarrow> runtime" where
  "SubscribeableViewNode_dispose n rt =
     rt\<lparr>disposed := disposed rt \<union> set (rf_materialized n) \<union> {rf_ref n}\<rparr>"



section \<open>Reveal: finding a node in the tree\<close>

text \<open>
  What the reveal code reads of a node: its class (for \<open>instanceof\<close>), its \<open>id\<close>,
  and its \<open>branch\<close>, \<open>commit.ref\<close> and \<open>remote.name\<close> when it has them.
\<close>

datatype node_class =
  RepositoriesNodeC | RepositoryNodeC | BranchesNodeC | BranchOrTagFolderNodeC | BranchNodeC
| RemotesNodeC | RemoteNodeC | CommitNodeC | BranchTrackingStatusNodeC
| BranchesViewNodeC | BranchesRepositoryNodeC | CommitsViewNodeC | CommitsRepositoryNodeC
| OtherNodeC

record tnode =
  n_ref :: ref
  n_class :: node_class
  n_id :: string
  n_branch :: "GitBranch option"
  n_commit :: "string option"
  n_remote :: "string option"

text \<open>
  The tree a reveal walks, as the nodes present it: \<open>getChildren\<close>, and for a
  pageable node \<open>hasMore\<close> and \<open>loadMore\<close> (with the target of the reveal). Each may
  change the state \<open>'s\<close> of the nodes, and the asynchronous ones may be rejected.
\<close>

record ('n, 's) tree =
  t_getChildren :: "'n \<Rightarrow> 's \<Rightarrow> (error + 'n list) \<times> 's"
  t_isPageable :: "'n \<Rightarrow> bool"
  t_hasMore :: "'n \<Rightarrow> 's \<Rightarrow> bool"
  t_loadMore :: "'n \<Rightarrow> 's \<Rightarrow> (error + unit) \<times> 's"

record ('n, 's) find_options =
  allowPaging :: bool
  maxDepth :: nat
  canTraverse :: "'n \<Rightarrow> 's \<Rightarrow> (error + bool) \<times> 's"
  isCancellationRequested :: "'s \<Rightarrow> bool"

datatype 'n find_event = CanTraverse 'n bool | GetChildren 'n nat | LoadMore 'n

datatype 'n outcome = Found 'n | Failed error | Cancelled | Continue "'n list"

text \<open>
  Modelled from the spec: the find engine (\<open>ViewBase.findNode\<close> is not among the
  sources; only its callers are). "At each frontier node, call \<open>canTraverse(node)\<close>
  to decide whether to descend; nodes failing \<open>canTraverse\<close> are pruned without
  calling \<open>getChildren()\<close>. At each visited node, evaluate \<open>predicate(node)\<close>; first
  match short-circuits and returns. Depth counter increments per tree level, not
  per sibling; exceeding \<open>maxDepth\<close> prunes that branch. If \<open>allowPaging\<close> is set and
  a candidate container node is exhausted (\<open>hasMore === true\<close>) without a match, the
  engine calls that node's \<open>loadMore(targetRef)\<close> to fetch additional entries
  before giving up on that branch. \<open>token\<close> is checked before each expansion step;
  cancellation returns \<open>undefined\<close> immediately without throwing."

  \<open>expand\<close> is the descent into one node at depth \<open>k\<close>: the children of a node
  that is not pageable go to the next level; those of a pageable node are looked
  through for a match at once, after one \<open>loadMore\<close> when paging is allowed and
  the node has more, and the node is given up when there is none. A rejected call
  ends the search with its error: the spec names no handler.
\<close>

definition expand ::
  "('n, 's) tree \<Rightarrow> ('n \<Rightarrow> bool) \<Rightarrow> ('n, 's) find_options \<Rightarrow> nat \<Rightarrow> 'n \<Rightarrow> 's
     \<Rightarrow> 'n outcome \<times> 's \<times> 'n find_event list"
where
  "expand T predicate opts k n s =
     (case t_getChildren T n s of
        (Inl e, s1) \<Rightarrow> (Failed e, s1, [GetChildren n k])
      | (Inr children, s1) \<Rightarrow>
          if \<not> t_isPageable T n then (Continue children, s1, [GetChildren n k])
          else
            (case find predicate children of
               Some c \<Rightarrow> (Found c, s1, [GetChildren n k])
             | None \<Rightarrow>
                 if allowPaging opts \<and> t_hasMore T n s1 then
                   (case t_loadMore T n s1 of
                      (Inl e, s2) \<Rightarrow> (Failed e, s2, [GetChildren n k, LoadMore n])
                    | (Inr _, s2) \<Rightarrow>
                        (case t_getChildren T n s2 of
                           (Inl e, s3) \<Rightarrow>
                             (Failed e, s3, [GetChildren n k, LoadMore n, GetChildren n k])
                         | (Inr paged, s3) \<Rightarrow>
                             (case find predicate paged of
                                Some c \<Rightarrow> Found c
                              | None \<Rightarrow> Continue [],
                              s3, [GetChildren n k, LoadMore n, GetChildren n k])))
                 else (Continue [], s1, [GetChildren n k])))"

definition visit ::
  "('n, 's) tree \<Rightarrow> ('n \<Rightarrow> bool) \<Rightarrow> ('n, 's) find_options \<Rightarrow> nat \<Rightarrow> 'n \<Rightarrow> 's
     \<Rightarrow> 'n outcome \<times> 's \<times> 'n find_event list"
where
  "visit T predicate opts k n s =
     (if predicate n then (Found n, s, [])
      else
        (case canTraverse opts n s of
           (Inl e, s1) \<Rightarrow> (Failed e, s1, [])
         | (Inr False, s1) \<Rightarrow> (Continue [], s1, [CanTraverse n False])
         | (Inr True, s1) \<Rightarrow>
             (case expand T predicate opts k n s1 of
                (r, s2, evs) \<Rightarrow> (r, s2, CanTraverse n True # evs))))"

fun find_level ::
  "('n, 's) tree \<Rightarrow> ('n \<Rightarrow> bool) \<Rightarrow> ('n, 's) find_options \<Rightarrow> nat \<Rightarrow> 'n list \<Rightarrow> 's
     \<Rightarrow> 'n outcome \<times> 's \<times> 'n find_event list"
where
  "find_level T predicate opts k [] s = (Continue [], s, [])"
| "find_level T predicate opts k (n # ns) s =
     (if isCancellationRequested opts s then (Cancelled, s, [])
      else
        (case visit T predicate opts k n s of
           (Continue children, s1, evs) \<Rightarrow>
             (case find_level T predicate opts k ns s1 of
                (Continue others, s2, evs2) \<Rightarrow> (Continue (children @ others), s2, evs @ evs2)
              | (r, s2, evs2) \<Rightarrow> (r, s2, evs @ evs2))
         | (r, s1, evs) \<Rightarrow> (r, s1, evs)))"

text \<open>
  The levels: \<open>k\<close> is the depth of the frontier and \<open>d\<close> what is left of
  \<open>maxDepth\<close>. The nodes below the last level are not visited.
\<close>

fun find_bfs ::
  "('n, 's) tree \<Rightarrow> ('n \<Rightarrow> bool) \<Rightarrow> ('n, 's) find_options \<Rightarrow> nat \<Rightarrow> nat \<Rightarrow> 'n list \<Rightarrow> 's
     \<Rightarrow> (error + 'n option) \<times> 's \<times> 'n find_event list"
where
  "find_bfs T predicate opts d k frontier s =
     (case find_level T predicate opts k frontier s of
        (Found n, s1, evs) \<Rightarrow> (Inr (Some n), s1, evs)
      | (Failed e, s1, evs) \<Rightarrow> (Inl e, s1, evs)
      | (Cancelled, s1, evs) \<Rightarrow> (Inr None, s1, evs)
      | (Continue next, s1, evs) \<Rightarrow>
          (case d of
             0 \<Rightarrow> (Inr None, s1, evs)
           | Suc d' \<Rightarrow>
               if next = [] then (Inr None, s1, evs)
               else (case find_bfs T predicate opts d' (Suc k) next s1 of
                       (r, s2, evs2) \<Rightarrow> (r, s2, evs @ evs2))))"

definition findNode ::
  "('n, 's) tree \<Rightarrow> 'n \<Rightarrow> ('n \<Rightarrow> bool) \<Rightarrow> ('n, 's) find_options \<Rightarrow> 's
     \<Rightarrow> (error + 'n option) \<times> 's \<times> 'n find_event list"
where
  "findNode T root predicate opts s = find_bfs T predicate opts (maxDepth opts) 0 [root] s"


definition fixed_tree :: "('n \<Rightarrow> 'n list) \<Rightarrow> ('n \<Rightarrow> bool) \<Rightarrow> ('n, 's) tree" where
  "fixed_tree kids pageable =
     \<lparr>t_getChildren = (\<lambda>n s. (Inr (kids n), s)), t_isPageable = pageable,
      t_hasMore = (\<lambda>n s. False), t_loadMore = (\<lambda>n s. (Inr (), s))\<rparr>"

text \<open>\<open>id.startsWith(prefix)\<close>.\<close>

definition startsWith :: "string \<Rightarrow> string \<Rightarrow> bool" where
  "startsWith s p = (take (length p) s = p)"



text \<open>
  A branches view of one repository with three local branches and, for the sake of
  the example, the node of a remote branch beside them; every branch node has a
  commit below it.
\<close>

definition sample_repoId :: string where
  "sample_repoId = ''gitlens:repository(/repo)''"

definition branch_named :: "string \<Rightarrow> bool \<Rightarrow> GitBranch" where
  "branch_named name remote =
     \<lparr>b_name = name, b_ref = name, b_repoPath = ''/repo'', b_current = False,
      b_remote = remote, b_tracking = None, b_ahead = 0, b_behind = 0\<rparr>"

definition branch_tnode :: "ref \<Rightarrow> string \<Rightarrow> bool \<Rightarrow> tnode" where
  "branch_tnode r name remote =
     \<lparr>n_ref = r, n_class = BranchNodeC,
      n_id = sample_repoId @ '':branch('' @ name @ '')'',
      n_branch = Some (branch_named name remote), n_commit = None, n_remote = None\<rparr>"

definition commit_tnode :: "ref \<Rightarrow> string \<Rightarrow> tnode" where
  "commit_tnode r sha =
     \<lparr>n_ref = r, n_class = CommitNodeC, n_id = sha, n_branch = None, n_commit = Some sha,
      n_remote = None\<rparr>"

definition sample_view_root :: tnode where
  "sample_view_root =
     \<lparr>n_ref = 20, n_class = BranchesViewNodeC, n_id = ''gitlens:views:branches'',
      n_branch = None, n_commit = None, n_remote = None\<rparr>"

definition sample_repo_tnode :: tnode where
  "sample_repo_tnode =
     \<lparr>n_ref = 21, n_class = BranchesRepositoryNodeC, n_id = sample_repoId,
      n_branch = None, n_commit = None, n_remote = None\<rparr>"

definition sample_kids :: "tnode \<Rightarrow> tnode list" where
  "sample_kids n =
     (if n_class n = BranchesViewNodeC then [sample_repo_tnode]
      else if n_class n = BranchesRepositoryNodeC then
        [branch_tnode 22 ''main'' False, branch_tnode 23 ''origin/main'' True,
         branch_tnode 24 ''feature/x'' False, branch_tnode 25 ''dev'' False]
      else if n_class n = BranchNodeC then [commit_tnode (n_ref n + 10) ''c1'']
      else [])"

definition sample_tree :: "(tnode, unit) tree" where
  "sample_tree = fixed_tree sample_kids (\<lambda>n. n_class n = BranchNodeC)"




section \<open>Reveal: finding a commit\<close>

text \<open>
  \<open>CommitsView.findCommit\<close>. \<open>getBranch\<close> and \<open>branchContainsCommit\<close> are reads
  of the data access; \<open>getSplattedChild\<close> of the repository nodes is not among the
  sources and is the parameter \<open>splattedChild\<close>; \<open>loadMore\<close> is the tree's, with
  the commit as its target.
\<close>

definition loadMore_then_true ::
  "(tnode, 's) tree \<Rightarrow> tnode \<Rightarrow> 's \<Rightarrow> (error + bool) \<times> 's"
where
  "loadMore_then_true T node s =
     (case t_loadMore T node s of
        (Inl e, s1) \<Rightarrow> (Inl e, s1)
      | (Inr _, s1) \<Rightarrow> (Inr True, s1))"

definition CommitsView_findCommit_canTraverse ::
  "(tnode, 's) tree \<Rightarrow> (tnode \<Rightarrow> 's \<Rightarrow> (error + tnode option) \<times> 's) \<Rightarrow> string \<Rightarrow> tnode \<Rightarrow> 's
     \<Rightarrow> (error + bool) \<times> 's"
where
  "CommitsView_findCommit_canTraverse T splattedChild repoNodeId n s =
     (if n_class n = CommitsViewNodeC then
        (case splattedChild n s of
           (Inl e, s1) \<Rightarrow> (Inl e, s1)
         | (Inr None, s1) \<Rightarrow> (Inr True, s1)
         | (Inr (Some node), s1) \<Rightarrow>
             if n_class node = CommitsRepositoryNodeC then
               (case splattedChild node s1 of
                  (Inl e, s2) \<Rightarrow> (Inl e, s2)
                | (Inr None, s2) \<Rightarrow> (Inr True, s2)
                | (Inr (Some node2), s2) \<Rightarrow>
                    if n_class node2 = BranchNodeC then loadMore_then_true T node2 s2
                    else (Inr True, s2))
             else (Inr True, s1))
      else if n_class n = CommitsRepositoryNodeC \<and> startsWith (n_id n) repoNodeId then
        (case splattedChild n s of
           (Inl e, s1) \<Rightarrow> (Inl e, s1)
         | (Inr None, s1) \<Rightarrow> (Inr False, s1)
         | (Inr (Some node), s1) \<Rightarrow>
             if n_class node = BranchNodeC then loadMore_then_true T node s1
             else (Inr False, s1))
      else if n_class n = BranchTrackingStatusNodeC then (Inr (startsWith (n_id n) repoNodeId), s)
      else (Inr False, s))"

definition CommitsView_findCommit ::
  "(string \<Rightarrow> error + GitBranch option) \<Rightarrow> (string \<Rightarrow> string \<Rightarrow> string \<Rightarrow> error + bool)
     \<Rightarrow> (tnode, 's) tree \<Rightarrow> (tnode \<Rightarrow> 's \<Rightarrow> (error + tnode option) \<times> 's) \<Rightarrow> tnode
     \<Rightarrow> string \<Rightarrow> string \<Rightarrow> string \<Rightarrow> ('s \<Rightarrow> bool) \<Rightarrow> 's
     \<Rightarrow> (error + tnode option) \<times> 's \<times> tnode find_event list"
where
  "CommitsView_findCommit getBranch branchContainsCommit T splattedChild root repoNodeId
       repoPath ref token s =
     (case getBranch repoPath of
        Inl e \<Rightarrow> (Inl e, s, [])
      | Inr None \<Rightarrow> (Inr None, s, [])
      | Inr (Some branch) \<Rightarrow>
          (case branchContainsCommit repoPath (b_name branch) ref of
             Inl e \<Rightarrow> (Inl e, s, [])
           | Inr False \<Rightarrow> (Inr None, s, [])
           | Inr True \<Rightarrow>
               findNode T root (\<lambda>n. n_commit n = Some ref)
                 \<lparr>allowPaging = True, maxDepth = 2,
                  canTraverse = CommitsView_findCommit_canTraverse T splattedChild repoNodeId,
                  isCancellationRequested = token\<rparr> s))"
























section \<open>Line annotations: the pull requests of the current lines\<close>

text \<open>
  A lookup is a future that settles some time after it was started with a value
  (for a pull request lookup, the pull request or none: the enrichment
  collaborator reports its failures as absent). A slot of the racer's map holds a
  value, or the future that was still running at the timeout, tagged with its key.
\<close>

type_synonym PullRequest = string

record 'v Future =
  settles_at :: nat
  resolves_to :: 'v

datatype ('k, 'v) slot = Value 'v | Pending 'k "'v Future"

text \<open>
  Modelled from the spec: \<open>Promises.raceAll\<close> (system/promise.ts is not among the
  sources). "Launches all lookups concurrently; for each key, if its future
  settles before \<open>timeoutMillis\<close>, the map holds the resolved value (or absence);
  otherwise the map holds a \<open>Pending\<close> wrapping the still-running future", with
  "if \<open>t \<le> T\<close> the returned map holds the resolved value; if \<open>t > T\<close> it holds
  \<open>Pending\<close>". The map keeps the order of the keys. The caller's timeout is
  optional: without one nothing times out.
\<close>

definition raceAll ::
  "'k list \<Rightarrow> ('k \<Rightarrow> 'v Future) \<Rightarrow> nat option \<Rightarrow> ('k \<times> ('k, 'v) slot) list"
where
  "raceAll keys lookup timeout =
     map (\<lambda>k. (k, case timeout of
                     None \<Rightarrow> Value (resolves_to (lookup k))
                   | Some T \<Rightarrow> if settles_at (lookup k) \<le> T then Value (resolves_to (lookup k))
                              else Pending k (lookup k)))
         keys"

text \<open>
  The loop of \<open>waitForAnyPendingPullRequests\<close> that fills \<open>resolved\<close>: a pending
  slot is awaited, a value is taken as it is.
\<close>

definition await_all :: "('k \<times> ('k, 'v) slot) list \<Rightarrow> ('k \<times> 'v) list" where
  "await_all prs =
     map (\<lambda>(key, value). (key, case value of Pending _ f \<Rightarrow> resolves_to f | Value v \<Rightarrow> v)) prs"

fun is_Pending :: "('k, 'v) slot \<Rightarrow> bool" where
  "is_Pending (Pending _ _) = True"
| "is_Pending (Value _) = False"

definition count_pending :: "('k \<times> ('k, 'v) slot) list \<Rightarrow> nat" where
  "count_pending prs = length (filter (\<lambda>(k, v). is_Pending v) prs)"

text \<open>
  The controller. Editors and cancellation tokens are told apart by a number;
  \<open>c_cancelled\<close> holds the tokens whose source was cancelled. What the controller
  does to the outside is kept in \<open>c_events\<close>.
\<close>

type_synonym prs_map = "(string \<times> (string, PullRequest option) slot) list"

datatype ui_event =
  SetDecorations nat "(nat \<times> (string, PullRequest option) slot option) list"
| LookupPullRequest string

record controller =
  c_editor :: "nat option"
  c_cancellation :: "nat option"
  c_enabled :: bool
  c_suspended :: bool
  c_cancelled :: "nat set"
  c_next_token :: nat
  c_events :: "ui_event list"

text \<open>
  What is started and not awaited (\<open>void this. ...\<close>): the wait for the pending
  pull requests, and the refresh that follows it.
\<close>

datatype task =
  WaitForPending nat prs_map nat
| Refresh nat "(string \<times> PullRequest option) list"

record GitBlameCommit =
  commit_ref :: string
  isUncommitted :: bool

text \<open>
  What \<open>refresh\<close> reads of its collaborators: the line tracker, the document
  tracker, the configuration, the rich remote provider and the pull request
  lookup. \<open>env_while_tracking\<close> and \<open>env_while_looking_up\<close> are what other handlers did to
  the controller while \<open>refresh\<close> awaited.
\<close>

record LineEnv =
  env_selections :: "nat list option"
  env_isTextEditor :: "nat \<Rightarrow> bool"
  env_editor_disposed :: "nat \<Rightarrow> bool"
  env_getOrAdd_isBlameable :: "error + bool"
  env_document_gone :: "nat \<Rightarrow> bool"
  env_includes_selections :: bool
  env_line_commit :: "nat \<Rightarrow> GitBlameCommit option"
  env_repoPath :: "string option"
  env_cfg_pullRequests_enabled :: bool
  env_format_has_pullRequest :: bool
  env_tipsFn :: "error + unit"
  env_richRemoteProvider :: "error + bool"
  env_lookup :: "string \<Rightarrow> PullRequest option Future"
  env_while_tracking :: "controller \<Rightarrow> controller"
  env_while_looking_up :: "controller \<Rightarrow> controller"

definition suspended :: "controller \<Rightarrow> bool" where
  "suspended st = (\<not> c_enabled st \<or> c_suspended st)"

definition cancel_current :: "controller \<Rightarrow> controller" where
  "cancel_current st =
     (case c_cancellation st of
        None \<Rightarrow> st
      | Some t \<Rightarrow> st\<lparr>c_cancelled := insert t (c_cancelled st)\<rparr>)"

definition clearAnnotations :: "LineEnv \<Rightarrow> nat option \<Rightarrow> controller \<Rightarrow> controller" where
  "clearAnnotations env editor st =
     (case editor of
        None \<Rightarrow> st
      | Some ed \<Rightarrow>
          if env_editor_disposed env ed then st
          else st\<lparr>c_events := c_events st @ [SetDecorations ed []]\<rparr>)"

definition clear :: "LineEnv \<Rightarrow> nat option \<Rightarrow> controller \<Rightarrow> controller" where
  "clear env editor st =
     (let st1 = cancel_current st;
          st2 = (if c_editor st1 \<noteq> editor \<and> c_editor st1 \<noteq> None
                 then clearAnnotations env (c_editor st1) st1 else st1)
      in clearAnnotations env editor st2)"

text \<open>The refs of the lines as the \<open>Set\<close> of the source has them: each once, first come first.\<close>

definition refs_of :: "(nat \<times> GitBlameCommit) list \<Rightarrow> string list" where
  "refs_of lines = rev (remdups (rev (map (\<lambda>(l, c). commit_ref c) lines)))"

definition getPullRequests ::
  "LineEnv \<Rightarrow> (nat \<times> GitBlameCommit) list \<Rightarrow> nat option \<Rightarrow> controller
     \<Rightarrow> (error + prs_map option) \<times> controller"
where
  "getPullRequests env lines timeout st =
     (if lines = [] then (Inr None, st)
      else
        (case env_richRemoteProvider env of
           Inl e \<Rightarrow> (Inl e, st)
         | Inr False \<Rightarrow> (Inr None, st)
         | Inr True \<Rightarrow>
             let refs = refs_of lines
             in if refs = [] then (Inr None, st)
                else
                  let prs = raceAll refs (env_lookup env) timeout;
                      st1 = st\<lparr>c_events := c_events st @ map LookupPullRequest refs\<rparr>
                  in if prs = [] \<or> list_all (\<lambda>(k, v). v = Value None) prs then (Inr None, st1)
                     else (Inr (Some prs), st1)))"


text \<open>
  What \<open>refresh\<close> does once the pull requests are in: it cancels the wait of the
  refresh before, starts a wait of its own, and sets the decorations of the lines.
\<close>

definition decorate ::
  "nat \<Rightarrow> (nat \<times> GitBlameCommit) list \<Rightarrow> prs_map option \<Rightarrow> controller \<Rightarrow> controller \<times> task list"
where
  "decorate ed commitLines prs st =
     (let (st1, started) =
            (case prs of
               None \<Rightarrow> (st, [])
             | Some m \<Rightarrow>
                 let st' = cancel_current st; token = c_next_token st'
                 in (st'\<lparr>c_cancellation := Some token, c_next_token := Suc token\<rparr>,
                     [WaitForPending ed m token]));
          decorations =
            map (\<lambda>(l, c). (l, case prs of
                                 None \<Rightarrow> None
                               | Some m \<Rightarrow> (case map_of m (commit_ref c) of
                                             Some (Value None) \<Rightarrow> None
                                           | x \<Rightarrow> x)))
                commitLines
      in (st1\<lparr>c_events := c_events st1 @ [SetDecorations ed decorations]\<rparr>, started))"

text \<open>
  \<open>refresh\<close>, in the order of the source: the pull requests it shows are those
  it was given (\<open>options.prs\<close>), else those it looks up with a timeout of 100;
  \<open>render\<close> is what follows the check that the editor and the selections are
  still current, \<open>tracked\<close> what follows the guards on the editor.
\<close>

definition pullRequestsFor ::
  "LineEnv \<Rightarrow> (nat \<times> GitBlameCommit) list \<Rightarrow> (string \<times> PullRequest option) list option
     \<Rightarrow> controller \<Rightarrow> (error + prs_map option) \<times> controller"
where
  "pullRequestsFor env commitLines options_prs st =
     (if env_repoPath env \<noteq> None \<and> env_cfg_pullRequests_enabled env \<and>
         env_format_has_pullRequest env
      then (case options_prs of
              Some r \<Rightarrow> (Inr (Some (map (\<lambda>(k, v). (k, Value v)) r)), st)
            | None \<Rightarrow>
                getPullRequests env (filter (\<lambda>(l, c). \<not> isUncommitted c) commitLines)
                  (Some 100) st)
      else (Inr None, st))"

definition render ::
  "LineEnv \<Rightarrow> nat \<Rightarrow> nat list \<Rightarrow> (string \<times> PullRequest option) list option \<Rightarrow> controller
     \<Rightarrow> (error + unit) \<times> controller \<times> task list"
where
  "render env ed sels options_prs st =
     (let commitLines = List.map_filter (\<lambda>l. map_option (Pair l) (env_line_commit env l)) sels;
          (prs, st1) = pullRequestsFor env commitLines options_prs st;
          st2 = env_while_looking_up env st1
      in if isl prs \<or> isl (env_tipsFn env) then (Inl Rejected, st2, [])
         else (case decorate ed commitLines (projr prs) st2 of
                 (st3, started) \<Rightarrow> (Inr (), st3, started)))"

definition tracked ::
  "LineEnv \<Rightarrow> nat \<Rightarrow> nat list \<Rightarrow> (string \<times> PullRequest option) list option \<Rightarrow> controller
     \<Rightarrow> (error + unit) \<times> controller \<times> task list"
where
  "tracked env ed sels options_prs st =
     (case env_getOrAdd_isBlameable env of
        Inl e \<Rightarrow> (Inl e, env_while_tracking env st, [])
      | Inr blameable \<Rightarrow>
          let st1 = env_while_tracking env st
          in if \<not> blameable \<and> suspended st1 then (Inr (), clear env (Some ed) st1, [])
             else if env_document_gone env ed \<or> \<not> env_includes_selections env
             then (Inr (), st1, [])
             else render env ed sels options_prs st1)"


text \<open>
  Five commits whose pull requests are looked up with a timeout of 100: three
  lookups settle at 50, two at 300.
\<close>

definition sample_keys :: "string list" where
  "sample_keys = [''a1'', ''b2'', ''c3'', ''d4'', ''e5'']"

definition sample_lookup :: "string \<Rightarrow> PullRequest option Future" where
  "sample_lookup k =
     (if k \<in> {''a1'', ''b2'', ''c3''}
      then \<lparr>settles_at = 50, resolves_to = Some (''#'' @ k)\<rparr>
      else \<lparr>settles_at = 300, resolves_to = (if k = ''d4'' then Some ''#d4'' else None)\<rparr>)"

definition sample_prs :: prs_map where
  "sample_prs =
     [(''a1'', Value (Some ''#a1'')), (''b2'', Value (Some ''#b2'')), (''c3'', Value (Some ''#c3'')),
      (''d4'', Pending ''d4'' \<lparr>settles_at = 300, resolves_to = Some ''#d4''\<rparr>),
      (''e5'', Pending ''e5'' \<lparr>settles_at = 300, resolves_to = None\<rparr>)]"

definition sample_resolved :: "(string \<times> PullRequest option) list" where
  "sample_resolved =
     [(''a1'', Some ''#a1''), (''b2'', Some ''#b2''), (''c3'', Some ''#c3''),
      (''d4'', Some ''#d4''), (''e5'', None)]"




section \<open>Theorems\<close>

subsection \<open>Change events\<close>

lemma changed_Any_iff: "changed e ks AnyMode \<longleftrightarrow> set ks \<inter> changedKinds e \<noteq> {}"
  by (simp add: changed_def)

lemma changed_All_iff: "changed e ks AllMode \<longleftrightarrow> set ks \<subseteq> changedKinds e"
  by (simp add: changed_def)

lemma changed_Any_member: "k \<in> set ks \<Longrightarrow> k \<in> changedKinds e \<Longrightarrow> changed e ks AnyMode"
  by (auto simp: changed_def)


subsection \<open>The runtime under allocation\<close>

lemma new_nodes_calls [simp]: "calls (snd (new_nodes ks rt)) = calls rt"
  by (simp add: new_nodes_def)

lemma new_array_calls [simp]: "calls (snd (new_array xs rt)) = calls rt"
  by (simp add: new_array_def)

lemma new_ref_calls [simp]: "calls (snd (new_ref rt)) = calls rt"
  by (simp add: new_ref_def)

lemma buildChildren_calls [simp]:
  "calls (snd (buildChildren view l upper un arr rt)) = calls rt"
  by (simp add: buildChildren_def new_nodes_def Let_def)

subsection \<open>BranchNode: the log\<close>

lemma getLog_cached:
  "bn_log this = Some l \<Longrightarrow> BranchNode_getLog git view this rt = (Inr (Some l), this, rt)"
  by (simp add: BranchNode_getLog_def)

lemma getLog_fetch:
  "bn_log this = None \<Longrightarrow>
   BranchNode_getLog git view this rt =
     (let rt1 = note_call (GitGetLog (b_ref (bn_branch this)) (logLimit view this)) rt
      in case git_getLog git (bn_repoPath this) (logLimit view this) (b_ref (bn_branch this))
                (authors (bn_options this)) of
           Inl e \<Rightarrow> (Inl e, this, rt1)
         | Inr l \<Rightarrow> (Inr l, this\<lparr>bn_log := l\<rparr>, rt1))"
  by (simp add: BranchNode_getLog_def Let_def)


lemma getLog_frame:
  "bn_children (fst (snd (BranchNode_getLog git view this rt))) = bn_children this \<and>
   bn_limit (fst (snd (BranchNode_getLog git view this rt))) = bn_limit this"
  by (auto simp: BranchNode_getLog_def Let_def split: option.splits sum.splits)

subsection \<open>BranchNode: the children\<close>

lemma assemble_calls [simp]:
  "calls (snd (snd (assemble git view this arr lg rd rt))) = calls rt"
  by (simp add: assemble_def Let_def case_prod_beta split: option.splits sum.splits)




lemma getChildren_calls_cached_log:
  "bn_log this = Some l \<Longrightarrow>
   calls (snd (snd (BranchNode_getChildren git view this rt))) = calls rt"
  by (simp add: BranchNode_getChildren_def getLog_cached Let_def new_ref_def case_prod_beta
      split: option.splits sum.splits)



lemma assemble_log_frame:
  "bn_log (fst (snd (assemble git view this arr lg rd rt))) = bn_log this \<and>
   bn_limit (fst (snd (assemble git view this arr lg rd rt))) = bn_limit this"
  by (simp add: assemble_def Let_def case_prod_beta split: option.splits sum.splits)

lemma getChildren_keeps_log:
  "bn_log this = Some l \<Longrightarrow>
   bn_log (fst (snd (BranchNode_getChildren git view this rt))) = Some l"
  by (simp add: BranchNode_getChildren_def getLog_cached Let_def new_ref_def case_prod_beta
      assemble_log_frame split: option.splits sum.splits)

lemma getChildren_limit_frame:
  "bn_limit (fst (snd (BranchNode_getChildren git view this rt))) = bn_limit this"
  by (simp add: BranchNode_getChildren_def Let_def case_prod_beta assemble_log_frame
      getLog_frame split: option.splits sum.splits)

lemma getChildren_refetch:
  assumes "bn_children this = None" and "bn_log this = None"
    and "git_getBranchAheadRange git (bn_branch this) = Inr ar"
  shows "calls (snd (snd (BranchNode_getChildren git view this rt))) =
         calls rt @ [GitGetLog (b_ref (bn_branch this)) (logLimit view this)]"
  using assms
  by (simp add: BranchNode_getChildren_def getLog_fetch Let_def new_ref_def case_prod_beta
      note_call_def split: option.splits sum.splits)

lemma logLimit_cong:
  "bn_limit a = bn_limit b \<Longrightarrow> bn_root a = bn_root b \<Longrightarrow> bn_branch a = bn_branch b \<Longrightarrow>
   logLimit view a = logLimit view b"
  by (simp add: logLimit_def)

subsection \<open>C10: what refresh keeps\<close>

text \<open>
  C10. \<open>BranchNode.refresh\<close> with \<open>reset = false\<close> clears only the cached children:
  the log and the limit are as before, so the next \<open>getChildren\<close> renders the same
  log and asks the data access for none. With \<open>reset = true\<close> the log is cleared too
  (the limit stays), and the next \<open>getChildren\<close> fetches the log again.
\<close>

theorem BranchNode_refresh_frame:
  "BranchNode_refresh False this rt = (this\<lparr>bn_children := None\<rparr>, rt) \<and>
   BranchNode_refresh True this rt = (this\<lparr>bn_children := None, bn_log := None\<rparr>, rt) \<and>
   bn_limit (fst (BranchNode_refresh reset this rt)) = bn_limit this \<and>
   (bn_log this = Some l \<longrightarrow>
      bn_log (fst (BranchNode_refresh False this rt)) = Some l \<and>
      calls (snd (snd (BranchNode_getChildren git view
                         (fst (BranchNode_refresh False this rt)) rt))) = calls rt \<and>
      bn_log (fst (snd (BranchNode_getChildren git view
                         (fst (BranchNode_refresh False this rt)) rt))) = Some l) \<and>
   (git_getBranchAheadRange git (bn_branch this) = Inr ar \<longrightarrow>
      bn_log (fst (BranchNode_refresh True this rt)) = None \<and>
      calls (snd (snd (BranchNode_getChildren git view
                         (fst (BranchNode_refresh True this rt)) rt))) =
        calls rt @ [GitGetLog (b_ref (bn_branch this)) (logLimit view this)])"
proof -
  let ?kept = "this\<lparr>bn_children := None\<rparr>"
  let ?cleared = "this\<lparr>bn_children := None, bn_log := None\<rparr>"
  have a: "BranchNode_refresh False this rt = (?kept, rt)"
    and b: "BranchNode_refresh True this rt = (?cleared, rt)"
    by (simp_all add: BranchNode_refresh_def Let_def)
  have c: "bn_limit (fst (BranchNode_refresh reset this rt)) = bn_limit this"
    by (simp add: BranchNode_refresh_def Let_def)
  have d: "calls (snd (snd (BranchNode_getChildren git view ?kept rt))) = calls rt"
    "bn_log (fst (snd (BranchNode_getChildren git view ?kept rt))) = Some l"
    if "bn_log this = Some l"
    using that by (simp_all add: getChildren_calls_cached_log getChildren_keeps_log)
  have e: "calls (snd (snd (BranchNode_getChildren git view ?cleared rt))) =
        calls rt @ [GitGetLog (b_ref (bn_branch this)) (logLimit view this)]"
    if "git_getBranchAheadRange git (bn_branch this) = Inr ar"
  proof -
    have "logLimit view ?cleared = logLimit view this"
      by (rule logLimit_cong) simp_all
    with getChildren_refetch [of ?cleared git ar view rt] that show ?thesis by simp
  qed
  from a b c d e show ?thesis by simp
qed

theorem BranchNode_refresh_frame_witness:
  "bn_log (fst (BranchNode_refresh False (sample_node\<lparr>bn_log := Some sample_log\<rparr>) sample_runtime))
     = Some sample_log \<and>
   calls (snd (snd (BranchNode_getChildren (sample_git None) sample_view
      (fst (BranchNode_refresh False (sample_node\<lparr>bn_log := Some sample_log\<rparr>) sample_runtime))
      sample_runtime))) = [] \<and>
   calls (snd (snd (BranchNode_getChildren (sample_git None) sample_view
      (fst (BranchNode_refresh True (sample_node\<lparr>bn_log := Some sample_log\<rparr>) sample_runtime))
      sample_runtime))) = [GitGetLog ''main'' 10]"
proof -
  let ?n = "sample_node\<lparr>bn_log := Some sample_log\<rparr>"
  have h: "bn_log ?n = Some sample_log" by simp
  have g: "git_getBranchAheadRange (sample_git None) (bn_branch ?n) = Inr None"
    by (simp add: sample_git_def)
  from BranchNode_refresh_frame [of ?n sample_runtime False sample_log "sample_git None"
      sample_view None] h g
  have "bn_log (fst (BranchNode_refresh False ?n sample_runtime)) = Some sample_log \<and>
    calls (snd (snd (BranchNode_getChildren (sample_git None) sample_view
      (fst (BranchNode_refresh False ?n sample_runtime)) sample_runtime))) = calls sample_runtime \<and>
    calls (snd (snd (BranchNode_getChildren (sample_git None) sample_view
      (fst (BranchNode_refresh True ?n sample_runtime)) sample_runtime))) =
      calls sample_runtime @ [GitGetLog (b_ref (bn_branch ?n)) (logLimit sample_view ?n)]"
    by blast
  then show ?thesis
    by (simp add: sample_runtime_def sample_node_def sample_branch_def sample_view_def
        logLimit_def)
qed

subsection \<open>BranchesNode\<close>





subsection \<open>C1: the children cache\<close>





subsection \<open>C8: when the children cannot be computed\<close>









subsection \<open>C2: matching a change event\<close>




subsection \<open>C6: what refresh disposes\<close>


lemma fold_dispose_frame:
  "next_ref (fold SubscribeableViewNode_dispose cs rt) = next_ref rt \<and>
   calls (fold SubscribeableViewNode_dispose cs rt) = calls rt"
  by (induction cs arbitrary: rt) (auto simp: SubscribeableViewNode_dispose_def)




subsection \<open>The find engine\<close>








subsection \<open>A tree whose children do not change\<close>







subsection \<open>C3: what a reveal materializes\<close>



subsection \<open>The sample tree\<close>
























subsection \<open>C9: the guard of CommitsView.findCommit\<close>

text \<open>
  C9. \<open>CommitsView.findCommit\<close> returns \<open>undefined\<close> without a step in the tree
  when the repository has no current branch, and when the current branch does not
  contain the commit. Only when the branch contains the commit is the result that
  of the search; so a run that touched a node, or changed the state of the nodes,
  had a current branch containing the commit.
\<close>

theorem CommitsView_findCommit_guard:
  "(getBranch repoPath = Inr None \<longrightarrow>
      CommitsView_findCommit getBranch contains T sc root rid repoPath ref token s =
        (Inr None, s, [])) \<and>
   (getBranch repoPath = Inr (Some b) \<longrightarrow> contains repoPath (b_name b) ref = Inr False \<longrightarrow>
      CommitsView_findCommit getBranch contains T sc root rid repoPath ref token s =
        (Inr None, s, [])) \<and>
   (getBranch repoPath = Inr (Some b) \<longrightarrow> contains repoPath (b_name b) ref = Inr True \<longrightarrow>
      CommitsView_findCommit getBranch contains T sc root rid repoPath ref token s =
        findNode T root (\<lambda>n. n_commit n = Some ref)
          \<lparr>allowPaging = True, maxDepth = 2,
           canTraverse = CommitsView_findCommit_canTraverse T sc rid,
           isCancellationRequested = token\<rparr> s) \<and>
   (snd (snd (CommitsView_findCommit getBranch contains T sc root rid repoPath ref token s)) \<noteq> [] \<or>
    fst (snd (CommitsView_findCommit getBranch contains T sc root rid repoPath ref token s)) \<noteq> s \<or>
    (\<exists>n. fst (CommitsView_findCommit getBranch contains T sc root rid repoPath ref token s) =
            Inr (Some n)) \<longrightarrow>
      (\<exists>b'. getBranch repoPath = Inr (Some b') \<and> contains repoPath (b_name b') ref = Inr True))"
  by (auto simp: CommitsView_findCommit_def split: sum.splits option.splits bool.splits)

theorem CommitsView_findCommit_guard_witness:
  "CommitsView_findCommit (\<lambda>_. Inr None) (\<lambda>_ _ _. Inr True) sample_tree (\<lambda>n s. (Inr None, s))
      sample_view_root sample_repoId ''/repo'' ''abc123'' (\<lambda>_. False) () = (Inr None, (), []) \<and>
   CommitsView_findCommit (\<lambda>_. Inr (Some sample_branch)) (\<lambda>_ _ _. Inr False) sample_tree
      (\<lambda>n s. (Inr None, s)) sample_view_root sample_repoId ''/repo'' ''abc123'' (\<lambda>_. False) () =
        (Inr None, (), [])"
proof -
  have 1: "(\<lambda>_. Inr None :: error + GitBranch option) ''/repo'' = Inr None" by simp
  have 2: "(\<lambda>_. Inr (Some sample_branch) :: error + GitBranch option) ''/repo'' =
      Inr (Some sample_branch)" by simp
  have 3: "(\<lambda>_ _ _. Inr False :: error + bool) ''/repo'' (b_name sample_branch) ''abc123'' =
      Inr False" by simp
  from CommitsView_findCommit_guard [where getBranch = "\<lambda>_. Inr None" and repoPath = "''/repo''"
      and contains = "\<lambda>_ _ _. Inr True" and T = sample_tree and sc = "\<lambda>n s. (Inr None, s)"
      and root = sample_view_root and rid = sample_repoId and ref = "''abc123''"
      and token = "\<lambda>_. False" and s = "()", THEN conjunct1] 1
  have a: "CommitsView_findCommit (\<lambda>_. Inr None) (\<lambda>_ _ _. Inr True) sample_tree
      (\<lambda>n s. (Inr None, s))
      sample_view_root sample_repoId ''/repo'' ''abc123'' (\<lambda>_. False) () = (Inr None, (), [])"
    by (rule mp)
  from CommitsView_findCommit_guard [where getBranch = "\<lambda>_. Inr (Some sample_branch)"
      and repoPath = "''/repo''" and b = sample_branch
      and contains = "\<lambda>_ _ _. Inr False" and T = sample_tree and sc = "\<lambda>n s. (Inr None, s)"
      and root = sample_view_root and rid = sample_repoId and ref = "''abc123''"
      and token = "\<lambda>_. False" and s = "()", THEN conjunct2, THEN conjunct1] 2 3
  have b: "CommitsView_findCommit (\<lambda>_. Inr (Some sample_branch)) (\<lambda>_ _ _. Inr False) sample_tree
      (\<lambda>n s. (Inr None, s)) sample_view_root sample_repoId ''/repo'' ''abc123'' (\<lambda>_. False) () =
        (Inr None, (), [])"
    by blast
  from a b show ?thesis by (rule conjI)
qed

subsection \<open>What a search returns\<close>








subsection \<open>Paging a branch node\<close>






subsection \<open>The sample repositories view\<close>




















subsection \<open>C5: paging during a reveal\<close>




subsection \<open>The racer and the wait\<close>

lemma raceAll_keys: "map fst (raceAll keys lookup timeout) = keys"
  by (simp add: raceAll_def comp_def)

lemma raceAll_map_of:
  "k \<in> set keys \<Longrightarrow>
   map_of (raceAll keys lookup (Some T)) k =
     Some (if settles_at (lookup k) \<le> T then Value (resolves_to (lookup k))
           else Pending k (lookup k))"
  by (induction keys) (auto simp: raceAll_def)

lemma await_all_raceAll:
  "await_all (raceAll keys lookup timeout) = map (\<lambda>k. (k, resolves_to (lookup k))) keys"
  by (induction keys) (auto simp: raceAll_def await_all_def split: option.splits)

lemma count_pending_raceAll:
  "count_pending (raceAll keys lookup (Some T)) =
     length (filter (\<lambda>k. T < settles_at (lookup k)) keys)"
  by (induction keys) (auto simp: raceAll_def count_pending_def)

lemma getPullRequests_raceAll:
  "getPullRequests env lines timeout st = (Inr (Some prs), st') \<Longrightarrow>
   prs = raceAll (refs_of lines) (env_lookup env) timeout"
  by (auto simp: getPullRequests_def Let_def split: if_splits sum.splits bool.splits)

text \<open>
  C7. The map of \<open>raceAll\<close> has the keys it was given; a key whose lookup settles
  at a time \<open>t \<le> T\<close> holds the value of the lookup, a key whose lookup settles at
  \<open>t > T\<close> holds \<open>Pending\<close> with the lookup's future. Awaiting every pending slot,
  as \<open>waitForAnyPendingPullRequests\<close> does, gives each key the value of its
  lookup: the map that awaiting every lookup without a timeout gives. The map
  that \<open>getPullRequests\<close> returns is the racer's.
\<close>

theorem raceAll_settles:
  "map fst (raceAll keys lookup (Some T)) = keys \<and>
   (\<forall>k \<in> set keys. settles_at (lookup k) \<le> T \<longrightarrow>
      map_of (raceAll keys lookup (Some T)) k = Some (Value (resolves_to (lookup k)))) \<and>
   (\<forall>k \<in> set keys. T < settles_at (lookup k) \<longrightarrow>
      map_of (raceAll keys lookup (Some T)) k = Some (Pending k (lookup k))) \<and>
   await_all (raceAll keys lookup (Some T)) = map (\<lambda>k. (k, resolves_to (lookup k))) keys \<and>
   await_all (raceAll keys lookup (Some T)) = await_all (raceAll keys lookup None) \<and>
   raceAll keys lookup None = map (\<lambda>k. (k, Value (resolves_to (lookup k)))) keys \<and>
   (getPullRequests env lines (Some T) st = (Inr (Some prs), st') \<longrightarrow>
      prs = raceAll (refs_of lines) (env_lookup env) (Some T) \<and>
      await_all prs = map (\<lambda>k. (k, resolves_to (env_lookup env k))) (refs_of lines))"
proof -
  have a: "raceAll keys lookup None = map (\<lambda>k. (k, Value (resolves_to (lookup k)))) keys"
    by (simp add: raceAll_def)
  have b: "prs = raceAll (refs_of lines) (env_lookup env) (Some T) \<and>
      await_all prs = map (\<lambda>k. (k, resolves_to (env_lookup env k))) (refs_of lines)"
    if "getPullRequests env lines (Some T) st = (Inr (Some prs), st')"
    using getPullRequests_raceAll [OF that] by (simp add: await_all_raceAll)
  have c: "await_all (raceAll keys lookup (Some T)) = await_all (raceAll keys lookup None)"
    by (simp add: await_all_raceAll)
  have d: "map_of (raceAll keys lookup (Some T)) k = Some (Value (resolves_to (lookup k)))"
    if "k \<in> set keys" "settles_at (lookup k) \<le> T" for k
    using that by (simp add: raceAll_map_of)
  have e: "map_of (raceAll keys lookup (Some T)) k = Some (Pending k (lookup k))"
    if "k \<in> set keys" "T < settles_at (lookup k)" for k
    using that by (simp add: raceAll_map_of)
  from a b c d e raceAll_keys [of keys lookup "Some T"]
    await_all_raceAll [of keys lookup "Some T"]
  show ?thesis by blast
qed


lemma sample_raceAll: "raceAll sample_keys sample_lookup (Some 100) = sample_prs"
  by (simp add: raceAll_def sample_keys_def sample_lookup_def sample_prs_def)

theorem raceAll_settles_witness:
  "raceAll sample_keys sample_lookup (Some 100) = sample_prs \<and>
   map_of sample_prs ''a1'' = Some (Value (Some ''#a1'')) \<and>
   map_of sample_prs ''d4'' = Some (Pending ''d4'' \<lparr>settles_at = 300, resolves_to = Some ''#d4''\<rparr>) \<and>
   await_all sample_prs = sample_resolved"
proof -
  note inst = raceAll_settles [where keys = sample_keys and lookup = sample_lookup and T = 100]
  have k: "''a1'' \<in> set sample_keys" "''d4'' \<in> set sample_keys"
    by (simp_all add: sample_keys_def)
  have t: "settles_at (sample_lookup ''a1'') \<le> 100" "100 < settles_at (sample_lookup ''d4'')"
    by (simp_all add: sample_lookup_def)
  from inst [THEN conjunct2, THEN conjunct1, THEN bspec, OF k(1)] t(1)
  have 1: "map_of sample_prs ''a1'' = Some (Value (Some ''#a1''))"
    by (simp add: sample_raceAll sample_lookup_def)
  from inst [THEN conjunct2, THEN conjunct2, THEN conjunct1, THEN bspec, OF k(2)] t(2)
  have 2: "map_of sample_prs ''d4'' =
      Some (Pending ''d4'' \<lparr>settles_at = 300, resolves_to = Some ''#d4''\<rparr>)"
    by (simp add: sample_raceAll sample_lookup_def)
  have "await_all (raceAll sample_keys sample_lookup (Some 100)) =
      map (\<lambda>k. (k, resolves_to (sample_lookup k))) sample_keys"
    by (rule inst [THEN conjunct2, THEN conjunct2, THEN conjunct2, THEN conjunct1])
  then have "await_all sample_prs = map (\<lambda>k. (k, resolves_to (sample_lookup k))) sample_keys"
    by (simp only: sample_raceAll)
  then have 3: "await_all sample_prs = sample_resolved"
    by (simp add: sample_keys_def sample_lookup_def sample_resolved_def)
  from sample_raceAll 1 2 3 show ?thesis by simp
qed

subsection \<open>The refresh that follows the wait\<close>




lemma cancel_current_token [simp]: "c_next_token (cancel_current st) = c_next_token st"
  by (simp add: cancel_current_def split: option.splits)


lemma clearAnnotations_cancelled [simp]:
  "c_cancelled (clearAnnotations env e st) = c_cancelled st"
  by (simp add: clearAnnotations_def split: option.splits)

lemma clearAnnotations_editor [simp]:
  "c_editor (clearAnnotations env e st) = c_editor st"
  by (simp add: clearAnnotations_def split: option.splits)











lemma clearAnnotations_lookup [simp]:
  "clearAnnotations (env\<lparr>env_richRemoteProvider := rp, env_lookup := lk\<rparr>) e st =
     clearAnnotations env e st"
  by (simp add: clearAnnotations_def split: option.splits)

lemma clear_lookup [simp]:
  "clear (env\<lparr>env_richRemoteProvider := rp, env_lookup := lk\<rparr>) e st = clear env e st"
  by (simp add: clear_def Let_def cong: if_cong)

lemma pullRequestsFor_lookup [simp]:
  "pullRequestsFor (env\<lparr>env_richRemoteProvider := rp, env_lookup := lk\<rparr>) cl (Some r) st =
     pullRequestsFor env cl (Some r) st"
  by (simp add: pullRequestsFor_def)

lemma render_lookup [simp]:
  "render (env\<lparr>env_richRemoteProvider := rp, env_lookup := lk\<rparr>) ed sels (Some r) st =
     render env ed sels (Some r) st"
  by (simp add: render_def Let_def case_prod_beta)

lemma tracked_lookup [simp]:
  "tracked (env\<lparr>env_richRemoteProvider := rp, env_lookup := lk\<rparr>) ed sels (Some r) st =
     tracked env ed sels (Some r) st"
  by (simp add: tracked_def Let_def split: sum.splits)










end
